theory Spec2Isabelle
  imports Complex_Main "HOL-Library.Multiset"
begin

section \<open>Values, failures and array access\<close>

text \<open>
  The extractors work on numpy arrays of doubles. Finite doubles are modelled as reals;
  the values a floating division by zero produces are kept as separate constructors, so
  that "returns NaN" and "raises" are both visible results of the model.
\<close>

datatype error = ValueError string | IndexError | LinAlgError

datatype npfloat = Fin real | PosInf | NegInf | NaN

text \<open>numpy's true division of two finite numbers: it never raises, a zero divisor gives
  NaN (for \<open>0 / 0\<close>) or a signed infinity.\<close>

definition np_true_divide :: "real \<Rightarrow> real \<Rightarrow> npfloat" where
  "np_true_divide a b =
     (if b \<noteq> 0 then Fin (a / b)
      else if a = 0 then NaN
      else if 0 < a then PosInf else NegInf)"

text \<open>Multiplication of a numpy float by a finite constant.\<close>

fun np_multiply :: "npfloat \<Rightarrow> real \<Rightarrow> npfloat" where
  "np_multiply (Fin a) c = Fin (a * c)"
| "np_multiply NaN c = NaN"
| "np_multiply PosInf c = (if 0 < c then PosInf else if c < 0 then NegInf else NaN)"
| "np_multiply NegInf c = (if 0 < c then NegInf else if c < 0 then PosInf else NaN)"

text \<open>A point cloud: \<open>pc[point]['x']['data']\<close>, \<open>pc[point]['y']['data']\<close> and
  \<open>pc[point]['z']['data']\<close>, three index-aligned arrays.\<close>

record point_cloud =
  x_data :: "real list"
  y_data :: "real list"
  z_data :: "real list"

text \<open>The volume object as the extractors read it: its \<open>TYPE\<close> tag and its radius.\<close>

record volume =
  vol_TYPE :: string
  radius :: real

type_synonym vec3 = "real \<times> real \<times> real"

text \<open>\<open>data[i]\<close> on a numpy array: an index in \<open>[-n, n)\<close> is accepted, negative ones
  count from the end, anything else raises IndexError.\<close>

definition take_index :: "real list \<Rightarrow> int \<Rightarrow> error + real" where
  "take_index a i =
     (let n = int (length a) in
      if - n \<le> i \<and> i < n then Inr (a ! nat (if i < 0 then i + n else i))
      else Inl IndexError)"

text \<open>\<open>data[neighborhood]\<close>: indexing with a list of indices, one element per index.\<close>

fun take_indices :: "real list \<Rightarrow> int list \<Rightarrow> error + real list" where
  "take_indices a [] = Inr []"
| "take_indices a (i # is) =
     (case take_index a i of
        Inl e \<Rightarrow> Inl e
      | Inr v \<Rightarrow> (case take_indices a is of Inl e \<Rightarrow> Inl e | Inr vs \<Rightarrow> Inr (v # vs)))"

section \<open>Echo ratio extractor\<close>

text \<open>\<open>EchoRatioFeatureExtractor.get_target_position\<close>.\<close>

definition get_target_position :: "point_cloud \<Rightarrow> int \<Rightarrow> error + vec3" where
  "get_target_position target_point_cloud target_index =
     (case take_index (x_data target_point_cloud) target_index of
        Inl e \<Rightarrow> Inl e
      | Inr x0 \<Rightarrow>
     (case take_index (y_data target_point_cloud) target_index of
        Inl e \<Rightarrow> Inl e
      | Inr y0 \<Rightarrow>
     (case take_index (z_data target_point_cloud) target_index of
        Inl e \<Rightarrow> Inl e
      | Inr z0 \<Rightarrow> Inr (x0, y0, z0))))"

text \<open>\<open>EchoRatioFeatureExtractor.get_neighborhood_positions\<close>: the three coordinate
  columns stacked into rows.\<close>

definition get_neighborhood_positions :: "point_cloud \<Rightarrow> int list \<Rightarrow> error + vec3 list" where
  "get_neighborhood_positions pc neighborhood =
     (case take_indices (x_data pc) neighborhood of
        Inl e \<Rightarrow> Inl e
      | Inr xs \<Rightarrow>
     (case take_indices (y_data pc) neighborhood of
        Inl e \<Rightarrow> Inl e
      | Inr ys \<Rightarrow>
     (case take_indices (z_data pc) neighborhood of
        Inl e \<Rightarrow> Inl e
      | Inr zs \<Rightarrow> Inr (zip xs (zip ys zs)))))"

text \<open>One row of \<open>np.sum((xyz - xyz0) ** 2, 1)\<close>.\<close>

fun sq_dist :: "vec3 \<Rightarrow> vec3 \<Rightarrow> real" where
  "sq_dist (x, y, z) (x0, y0, z0) = (x - x0)\<^sup>2 + (y - y0)\<^sup>2 + (z - z0)\<^sup>2"

text \<open>\<open>EchoRatioFeatureExtractor.extract\<close>. The three argument checks come first, in
  the order of the source; \<open>n_sphere\<close> is the sum of the booleans of the comparison.\<close>

definition EchoRatio_extract ::
  "point_cloud \<Rightarrow> int list \<Rightarrow> point_cloud option \<Rightarrow> int option \<Rightarrow> volume \<Rightarrow> error + npfloat"
where
  "EchoRatio_extract pc neighborhood target_point_cloud target_index volume_description =
     (if vol_TYPE volume_description \<noteq> ''infinite cylinder''
      then Inl (ValueError ''The volume must be a cylinder'')
      else case target_point_cloud of
        None \<Rightarrow> Inl (ValueError ''Target point cloud required'')
      | Some tpc \<Rightarrow>
     (case target_index of
        None \<Rightarrow> Inl (ValueError ''Target point index required'')
      | Some ti \<Rightarrow>
     (case get_neighborhood_positions pc neighborhood of
        Inl e \<Rightarrow> Inl e
      | Inr xyz \<Rightarrow>
     (let n_cylinder = length xyz in
      case get_target_position tpc ti of
        Inl e \<Rightarrow> Inl e
      | Inr xyz0 \<Rightarrow>
     (let n_sphere = sum_list (map (\<lambda>p. if sq_dist p xyz0 \<le> (radius volume_description)\<^sup>2
                                          then 1 else 0 :: nat) xyz)
      in Inr (np_multiply (np_true_divide (real n_sphere) (real n_cylinder)) 100))))))"

section \<open>Percentile extractor\<close>

text \<open>
  \<open>scipy.stats.scoreatpercentile(a, per)\<close> with its default arguments, as the library
  defines it: an empty array gives NaN; otherwise the array is sorted and
  \<open>_compute_qth_percentile\<close> interpolates with the method \<open>'fraction'\<close>: the index
  \<open>idx = per / 100 * (n - 1)\<close> is used as it is when it is whole, and otherwise the slice
  \<open>sorted_[i:i+2]\<close> is weighted by \<open>[j - idx, idx - i]\<close> and divided by the sum of the
  weights.
\<close>

definition compute_qth_percentile :: "real list \<Rightarrow> real \<Rightarrow> error + real" where
  "compute_qth_percentile srt per =
     (if \<not> (0 \<le> per \<and> per \<le> 100)
      then Inl (ValueError ''percentile must be in the range [0, 100]'')
      else
        let idx = per / 100 * (real (length srt) - 1);
            i = nat \<lfloor>idx\<rfloor>
        in if real i = idx
           then Inr (sum_list (map2 (*) (take 1 (drop i srt)) [1]) / 1)
           else
             let j = i + 1;
                 weights = [real j - idx, idx - real i];
                 sumval = sum_list weights
             in Inr (sum_list (map2 (*) (take 2 (drop i srt)) weights) / sumval))"

definition scoreatpercentile :: "real list \<Rightarrow> real \<Rightarrow> error + npfloat" where
  "scoreatpercentile a per =
     (if length a = 0 then Inr NaN
      else case compute_qth_percentile (sort a) per of
             Inl e \<Rightarrow> Inl e
           | Inr v \<Rightarrow> Inr (Fin v))"

text \<open>\<open>range(10, 110, 10)\<close>.\<close>

definition percentiles :: "real list" where
  "percentiles = [10, 20, 30, 40, 50, 60, 70, 80, 90, 100]"

text \<open>The list comprehension \<open>[f(p) for p in ps]\<close> over a call that may raise: the first
  failure ends it.\<close>

fun collect :: "('a \<Rightarrow> error + 'b) \<Rightarrow> 'a list \<Rightarrow> error + 'b list" where
  "collect f [] = Inr []"
| "collect f (p # ps) =
     (case f p of
        Inl e \<Rightarrow> Inl e
      | Inr v \<Rightarrow> (case collect f ps of Inl e \<Rightarrow> Inl e | Inr vs \<Rightarrow> Inr (v # vs)))"

text \<open>\<open>PercentileFeatureExtractor.extract\<close>.\<close>

definition Percentile_extract :: "point_cloud \<Rightarrow> int list \<Rightarrow> error + npfloat list" where
  "Percentile_extract sourcepc neighborhood =
     (case take_indices (z_data sourcepc) neighborhood of
        Inl e \<Rightarrow> Inl e
      | Inr z \<Rightarrow> collect (scoreatpercentile z) percentiles)"

text \<open>
  The reference the percentiles are compared with: linear interpolation between the two
  closest ranks of the sorted sample, at the rank \<open>h = p / 100 * (n - 1)\<close>.
\<close>

definition percentile_linear :: "real list \<Rightarrow> real \<Rightarrow> real" where
  "percentile_linear zs p =
     (let s = sort zs;
          h = p / 100 * (real (length zs) - 1);
          lo = nat \<lfloor>h\<rfloor>;
          hi = nat \<lceil>h\<rceil>
      in s ! lo + (h - real lo) * (s ! hi - s ! lo))"

section \<open>Eigen-structure extractor\<close>

type_synonym 'a triple = "'a \<times> 'a \<times> 'a"

type_synonym mat3 = "vec3 triple"

text \<open>
  \<open>np.linalg.eig\<close> is LAPACK's solver, not code of this package: the extractor takes it as
  the parameter \<open>eig\<close>, a function from a 3x3 matrix (its three rows) to the three
  eigenvalues and the matrix whose columns are the eigenvectors, in the solver's own order.
\<close>

type_synonym solver = "mat3 \<Rightarrow> vec3 \<times> mat3"

text \<open>
  On a diagonal matrix the solver returns the diagonal, in its order, with the unit vectors
  as eigenvectors. \<open>eig_diag\<close> is that solver; it is used to run the extractor on inputs
  whose covariance matrices are diagonal.
\<close>

fun eig_diag :: solver where
  "eig_diag ((a, _, _), (_, b, _), (_, _, c)) = ((a, b, c), ((1, 0, 0), (0, 1, 0), (0, 0, 1)))"

text \<open>The argument \<open>neighborhood\<close>: one list of indices, or a list of such lists.\<close>

datatype neighborhoods = Flat "int list" | Nested "int list list"

text \<open>
  \<open>if not isinstance(neighborhood[0], list): neighborhood = [neighborhood]\<close>.
  Reading element 0 of an empty list raises IndexError.
\<close>

fun as_batch :: "neighborhoods \<Rightarrow> error + int list list" where
  "as_batch (Flat []) = Inl IndexError"
| "as_batch (Flat (i # is)) = Inr [i # is]"
| "as_batch (Nested []) = Inl IndexError"
| "as_batch (Nested (nb # nbs)) = Inr (nb # nbs)"

text \<open>
  Modelled from the spec: \<open>utils.get_point\<close>, which is not among the sources. It reads
  the x, y and z arrays of the cloud at the indices of one neighborhood.
\<close>

definition get_point :: "point_cloud \<Rightarrow> int list \<Rightarrow> error + real list triple" where
  "get_point pc neighborhood =
     (case take_indices (x_data pc) neighborhood of
        Inl e \<Rightarrow> Inl e
      | Inr xs \<Rightarrow>
     (case take_indices (y_data pc) neighborhood of
        Inl e \<Rightarrow> Inl e
      | Inr ys \<Rightarrow>
     (case take_indices (z_data pc) neighborhood of
        Inl e \<Rightarrow> Inl e
      | Inr zs \<Rightarrow> Inr (xs, ys, zs))))"

text \<open>
  A row of a masked array: each entry is the stored number and its mask bit (\<open>True\<close> for an
  entry that is masked out). A block is the three rows (x, y, z) of one neighborhood, so a
  batch of blocks is the array of shape (batch, 3, width).
\<close>

type_synonym mrow = "(real \<times> bool) list"

type_synonym mblock = "mrow triple"

text \<open>
  Modelled from the spec: \<open>utils.get_xyz\<close>, which is not among the sources. The
  neighborhoods are packed, in their order, into a zero-filled array as wide as the
  largest of them; the entries beyond a neighborhood's own points are masked.
\<close>

definition pad_row :: "nat \<Rightarrow> real list \<Rightarrow> mrow" where
  "pad_row w vs = map (\<lambda>v. (v, False)) vs @ replicate (w - length vs) (0, True)"

definition max_length :: "int list list \<Rightarrow> nat" where
  "max_length nbs = fold max (map length nbs) 0"

definition get_xyz :: "point_cloud \<Rightarrow> int list list \<Rightarrow> error + mblock list" where
  "get_xyz sourcepc nbs =
     collect (\<lambda>nb. case get_point sourcepc nb of
                      Inl e \<Rightarrow> Inl e
                    | Inr (xs, ys, zs) \<Rightarrow>
                        Inr (pad_row (max_length nbs) xs, pad_row (max_length nbs) ys,
                             pad_row (max_length nbs) zs)) nbs"

text \<open>
  \<open>_get_cov\<close>, row by row.

  \<open>n = (xyz.mask.sum(axis=2, keepdims=True) * -1) + n_max\<close>: the width of the row minus
  the number of its masked entries.
\<close>

definition n_valid :: "mrow \<Rightarrow> int" where
  "n_valid r = int (length (filter snd r)) * (- 1) + int (length r)"

text \<open>\<open>xyz.sum(2, keepdims=True)\<close>: the sum of a masked array counts a masked entry as 0.\<close>

definition masked_sum :: "mrow \<Rightarrow> real" where
  "masked_sum r = sum_list (map (\<lambda>(v, msk). if msk then 0 else v) r)"

text \<open>
  \<open>m = xyz - xyz.sum(2, keepdims=True) / n\<close>, the numbers that \<open>np.einsum\<close> then reads.
  Masked-array arithmetic leaves the stored number of a masked entry as it was in the left
  operand; the division by \<open>n\<close> is a masked division (a zero \<open>n\<close> masks the quotient
  instead of producing NaN), and \<open>n\<close> is zero only in a row whose entries are all masked.
\<close>

definition centered :: "mrow \<Rightarrow> real list" where
  "centered r =
     map (\<lambda>(v, msk). if msk then v else v - masked_sum r / real_of_int (n_valid r)) r"

text \<open>One entry of \<open>np.einsum('ijk,ilk->ijl', m, m)\<close>: the sum over \<open>k\<close> of the products.\<close>

definition einsum_entry :: "real list \<Rightarrow> real list \<Rightarrow> real" where
  "einsum_entry mj ml = sum_list (map2 (*) mj ml)"

text \<open>
  The division \<open>/ (n - 1)\<close> is a division of plain arrays: entry \<open>(j, l)\<close> is divided by
  the \<open>n - 1\<close> of row \<open>j\<close>, and a zero divisor gives NaN or an infinity.
\<close>

definition get_cov_block :: "mblock \<Rightarrow> npfloat triple triple" where
  "get_cov_block blk =
     (case blk of (rx, ry, rz) \<Rightarrow>
        let mx = centered rx; my = centered ry; mz = centered rz;
            dx = real_of_int (n_valid rx - 1);
            dy = real_of_int (n_valid ry - 1);
            dz = real_of_int (n_valid rz - 1)
        in ((np_true_divide (einsum_entry mx mx) dx, np_true_divide (einsum_entry mx my) dx,
             np_true_divide (einsum_entry mx mz) dx),
            (np_true_divide (einsum_entry my mx) dy, np_true_divide (einsum_entry my my) dy,
             np_true_divide (einsum_entry my mz) dy),
            (np_true_divide (einsum_entry mz mx) dz, np_true_divide (einsum_entry mz my) dz,
             np_true_divide (einsum_entry mz mz) dz)))"

definition get_cov :: "mblock list \<Rightarrow> npfloat triple triple list" where
  "get_cov xyz = map get_cov_block xyz"

text \<open>
  \<open>np.linalg.eig\<close> on the stack of matrices: it raises \<open>LinAlgError\<close> when any entry of
  the whole stack is NaN or infinite, and otherwise solves each matrix on its own.
\<close>

fun finite_value :: "npfloat \<Rightarrow> real option" where
  "finite_value (Fin a) = Some a"
| "finite_value PosInf = None"
| "finite_value NegInf = None"
| "finite_value NaN = None"

fun finite_vec :: "npfloat triple \<Rightarrow> vec3 option" where
  "finite_vec (a, b, c) =
     (case (finite_value a, finite_value b, finite_value c) of
        (Some x, Some y, Some z) \<Rightarrow> Some (x, y, z)
      | _ \<Rightarrow> None)"

fun finite_mat :: "npfloat triple triple \<Rightarrow> mat3 option" where
  "finite_mat (r0, r1, r2) =
     (case (finite_vec r0, finite_vec r1, finite_vec r2) of
        (Some x, Some y, Some z) \<Rightarrow> Some (x, y, z)
      | _ \<Rightarrow> None)"

definition linalg_eig :: "solver \<Rightarrow> npfloat triple triple list \<Rightarrow> error + (vec3 \<times> mat3) list" where
  "linalg_eig eig cov_mat =
     (case those (map finite_mat cov_mat) of
        None \<Rightarrow> Inl LinAlgError
      | Some ms \<Rightarrow> Inr (map eig ms))"

text \<open>The seven arrays that \<open>extract\<close> returns, one entry per neighborhood in each.\<close>

record eigen_features =
  eigenv_1 :: "real list"
  eigenv_2 :: "real list"
  eigenv_3 :: "real list"
  normal_vector_1 :: "real list"
  normal_vector_2 :: "real list"
  normal_vector_3 :: "real list"
  slope :: "real list"

text \<open>\<open>np.sort(eigval, axis=1)[:, ::-1]\<close> for one neighborhood.\<close>

fun sort_descending :: "vec3 \<Rightarrow> real list" where
  "sort_descending (a, b, c) = rev (sort [a, b, c])"

text \<open>\<open>eigvects[:, :, 2]\<close> for one neighborhood: the last column of the solver's matrix.\<close>

fun last_column :: "mat3 \<Rightarrow> vec3" where
  "last_column ((_, _, a), (_, _, b), (_, _, c)) = (a, b, c)"

text \<open>\<open>np.dot(normals, np.array([0., 0., 1.]))\<close> for one neighborhood.\<close>

fun dot_zaxis :: "vec3 \<Rightarrow> real" where
  "dot_zaxis (n0, n1, n2) = n0 * 0 + n1 * 0 + n2 * 1"

text \<open>
  \<open>EigenValueVectorizeFeatureExtractor.extract\<close>. The arguments \<open>targetpc\<close>,
  \<open>targetindex\<close> and \<open>volume\<close> are not read by the method and are left out.
\<close>

definition EigenValueVectorize_extract ::
  "solver \<Rightarrow> point_cloud \<Rightarrow> neighborhoods \<Rightarrow> error + eigen_features"
where
  "EigenValueVectorize_extract eig sourcepc neighborhood =
     (case as_batch neighborhood of
        Inl e \<Rightarrow> Inl e
      | Inr nbs \<Rightarrow>
     (case get_xyz sourcepc nbs of
        Inl e \<Rightarrow> Inl e
      | Inr xyz_grp \<Rightarrow>
     (let cov_mat = get_cov xyz_grp in
      case linalg_eig eig cov_mat of
        Inl e \<Rightarrow> Inl e
      | Inr eigs \<Rightarrow>
     (let eigval = map fst eigs;
          eigvects = map snd eigs;
          e = map sort_descending eigval;
          normals = map last_column eigvects;
          slopes = map dot_zaxis normals
      in Inr \<lparr>eigenv_1 = map (\<lambda>v. v ! 0) e,
              eigenv_2 = map (\<lambda>v. v ! 1) e,
              eigenv_3 = map (\<lambda>v. v ! 2) e,
              normal_vector_1 = map fst normals,
              normal_vector_2 = map (fst \<circ> snd) normals,
              normal_vector_3 = map (snd \<circ> snd) normals,
              slope = slopes\<rparr>))))"

subsection \<open>The serial extractor of the test suite\<close>

text \<open>
  \<open>np.cov(points, rowvar=False)\<close> of the library: each column has its mean subtracted,
  and the products of the columns are scaled by \<open>1 / (n - 1)\<close>. The serial extractor
  calls it only with more than three points.
\<close>

definition np_cov :: "real list triple \<Rightarrow> mat3" where
  "np_cov cols =
     (case cols of (xs, ys, zs) \<Rightarrow>
        let X = map (\<lambda>v. v - sum_list xs / real (length xs)) xs;
            Y = map (\<lambda>v. v - sum_list ys / real (length ys)) ys;
            Z = map (\<lambda>v. v - sum_list zs / real (length zs)) zs;
            fact = real (length xs) - 1
        in ((einsum_entry X X * (1 / fact), einsum_entry X Y * (1 / fact),
             einsum_entry X Z * (1 / fact)),
            (einsum_entry Y X * (1 / fact), einsum_entry Y Y * (1 / fact),
             einsum_entry Y Z * (1 / fact)),
            (einsum_entry Z X * (1 / fact), einsum_entry Z Y * (1 / fact),
             einsum_entry Z Z * (1 / fact))))"

text \<open>
  \<open>EigenValueSerial._structure_tensor\<close>, its eigenvalues only:
  \<open>order = np.argsort(-eigenvalues); eigenvalues = eigenvalues[order]\<close>.
  \<open>None\<close> stands for the \<open>ValueError\<close> that \<open>extract\<close> catches.
\<close>

definition structure_tensor :: "solver \<Rightarrow> real list triple \<Rightarrow> real list option" where
  "structure_tensor eig points =
     (case points of (xs, ys, zs) \<Rightarrow>
        if length xs > 3
        then (case fst (eig (np_cov points)) of
                (a, b, c) \<Rightarrow> Some (map uminus (sort (map uminus [a, b, c]))))
        else None)"

text \<open>\<open>EigenValueSerial.extract\<close>.\<close>

definition EigenValueSerial_extract :: "solver \<Rightarrow> point_cloud \<Rightarrow> int list \<Rightarrow> error + real list" where
  "EigenValueSerial_extract eig sourcepc neighborhood =
     (case get_point sourcepc neighborhood of
        Inl e \<Rightarrow> Inl e
      | Inr points \<Rightarrow>
     (case structure_tensor eig points of
        None \<Rightarrow> Inr [0, 0, 0]
      | Some eigenvals \<Rightarrow> Inr [eigenvals ! 0, eigenvals ! 1, eigenvals ! 2]))"

subsection \<open>Reference notions\<close>

text \<open>
  The covariance of the points of one neighborhood as the specification words it: each
  coordinate is centered by its mean over the \<open>n\<close> points, and entry \<open>(j, l)\<close> is the sum
  of the products of the centered coordinates \<open>j\<close> and \<open>l\<close>, divided by \<open>n - 1\<close>.
\<close>

definition mean :: "real list \<Rightarrow> real" where
  "mean vs = sum_list vs / real (length vs)"

definition cross_moment :: "real list \<Rightarrow> real list \<Rightarrow> real" where
  "cross_moment us vs =
     (\<Sum>k < length us. (us ! k - mean us) * (vs ! k - mean vs))"

definition covariance :: "real list triple \<Rightarrow> npfloat triple triple" where
  "covariance cols =
     (case cols of (xs, ys, zs) \<Rightarrow>
        let d = real (length xs) - 1
        in ((np_true_divide (cross_moment xs xs) d, np_true_divide (cross_moment xs ys) d,
             np_true_divide (cross_moment xs zs) d),
            (np_true_divide (cross_moment ys xs) d, np_true_divide (cross_moment ys ys) d,
             np_true_divide (cross_moment ys zs) d),
            (np_true_divide (cross_moment zs xs) d, np_true_divide (cross_moment zs ys) d,
             np_true_divide (cross_moment zs zs) d)))"

text \<open>The product of a matrix, given by its rows, with a vector, and what it means for a
  vector to be an eigenvector of a matrix for a given eigenvalue.\<close>

fun mat_vec :: "mat3 \<Rightarrow> vec3 \<Rightarrow> vec3" where
  "mat_vec ((a11, a12, a13), (a21, a22, a23), (a31, a32, a33)) (v1, v2, v3) =
     (a11 * v1 + a12 * v2 + a13 * v3,
      a21 * v1 + a22 * v2 + a23 * v3,
      a31 * v1 + a32 * v2 + a33 * v3)"

fun scale :: "real \<Rightarrow> vec3 \<Rightarrow> vec3" where
  "scale c (v1, v2, v3) = (c * v1, c * v2, c * v3)"

definition is_eigenvector :: "mat3 \<Rightarrow> real \<Rightarrow> vec3 \<Rightarrow> bool" where
  "is_eigenvector A ev v \<longleftrightarrow> v \<noteq> (0, 0, 0) \<and> mat_vec A v = scale ev v"

section \<open>Properties of the echo ratio extractor\<close>

lemma take_indices_length: "take_indices a nb = Inr vs \<Longrightarrow> length vs = length nb"
  by (induction nb arbitrary: vs) (auto split: sum.splits)

lemma get_neighborhood_positions_length:
  "get_neighborhood_positions pc nb = Inr xyz \<Longrightarrow> length xyz = length nb"
  by (auto simp: get_neighborhood_positions_def split: sum.splits dest!: take_indices_length)

lemma sum_list_indicator: "sum_list (map (\<lambda>p. if P p then 1 else 0 :: nat) xs) = length (filter P xs)"
  by (induction xs) auto

text \<open>
  Claim C5. With a cylinder volume, a target cloud and a target index that is in range, and a
  non-empty neighborhood of \<open>c\<close> indices that are all in range, the extractor returns
  \<open>100 * s / c\<close>, where \<open>s\<close> counts the neighborhood points whose squared distance to the
  target position is at most the squared radius of the volume (the boundary is inside).
\<close>

theorem echo_ratio_value:
  assumes "vol_TYPE vol = ''infinite cylinder''"
    and "get_neighborhood_positions pc nb = Inr xyz"
    and "get_target_position tpc ti = Inr xyz0"
    and "nb \<noteq> []"
  shows "EchoRatio_extract pc nb (Some tpc) (Some ti) vol =
           Inr (Fin (100 * real (card {k. k < length xyz \<and> sq_dist (xyz ! k) xyz0 \<le> (radius vol)\<^sup>2})
                       / real (length nb)))"
proof -
  have len: "length xyz = length nb"
    using assms(2) by (rule get_neighborhood_positions_length)
  have pos: "real (length xyz) \<noteq> 0"
    using len assms(4) by simp
  show ?thesis
    using assms(1,2,3) pos len
    by (simp add: EchoRatio_extract_def Let_def sum_list_indicator length_filter_conv_card np_true_divide_def)
qed

theorem echo_ratio_value_witness:
  "EchoRatio_extract \<lparr>x_data = [0, 1, 0, 3], y_data = [0, 0, 1, 0], z_data = [0, 0, 1, 4]\<rparr> [0, 1, 2, 3]
      (Some \<lparr>x_data = [0], y_data = [0], z_data = [0]\<rparr>) (Some 0)
      \<lparr>vol_TYPE = ''infinite cylinder'', radius = 1\<rparr>
   = Inr (Fin (100 * real (card {k. k < length [(0,0,0),(1,0,0),(0,1,1),(3,0,4::real)] \<and>
            sq_dist ([(0,0,0),(1,0,0),(0,1,1),(3,0,4)] ! k) (0,0,0) \<le> (radius \<lparr>vol_TYPE = ''infinite cylinder'', radius = 1\<rparr>)\<^sup>2})
                       / real (length [0, 1, 2, 3::int])))"
  using echo_ratio_value [of "\<lparr>vol_TYPE = ''infinite cylinder'', radius = 1\<rparr>"
      "\<lparr>x_data = [0, 1, 0, 3], y_data = [0, 0, 1, 0], z_data = [0, 0, 1, 4]\<rparr>" "[0, 1, 2, 3]"
      "[(0,0,0),(1,0,0),(0,1,1),(3,0,4)]" "\<lparr>x_data = [0], y_data = [0], z_data = [0]\<rparr>" 0 "(0,0,0)"]
  by (simp add: get_neighborhood_positions_def get_target_position_def take_index_def)

text \<open>
  Claim C6. The extractor raises a \<open>ValueError\<close> exactly when the volume's type tag is not
  \<open>'infinite cylinder'\<close>, or the target cloud is \<open>None\<close>, or the target index is \<open>None\<close>.
  The point cloud and the neighborhood are arbitrary here, indices out of range included: the
  \<open>ValueError\<close> comes before any array is read, and nothing after the three checks raises one.
\<close>

theorem echo_ratio_invalid_argument:
  "(\<exists>msg. EchoRatio_extract pc nb tpc ti vol = Inl (ValueError msg)) \<longleftrightarrow>
     (vol_TYPE vol \<noteq> ''infinite cylinder'' \<or> tpc = None \<or> ti = None)"
proof -
  have a: "take_index a i \<noteq> Inl (ValueError msg)" for a i msg
    by (simp add: take_index_def Let_def)
  have b: "take_indices a is \<noteq> Inl (ValueError msg)" for a "is" msg
    by (induction "is") (auto split: sum.splits simp: a)
  have c: "get_neighborhood_positions pc nb \<noteq> Inl (ValueError msg)" for msg
    by (auto simp: get_neighborhood_positions_def b split: sum.splits)
  have d: "get_target_position t i \<noteq> Inl (ValueError msg)" for t i msg
    by (auto simp: get_target_position_def a split: sum.splits)
  show ?thesis
    by (auto simp: EchoRatio_extract_def Let_def c d split: option.splits sum.splits)
qed

theorem echo_ratio_invalid_argument_witness:
  "(\<exists>msg. EchoRatio_extract \<lparr>x_data = [0], y_data = [0], z_data = [0]\<rparr> [7] (Some \<lparr>x_data = [0], y_data = [0], z_data = [0]\<rparr>) (Some 0)
            \<lparr>vol_TYPE = ''sphere'', radius = 1\<rparr> = Inl (ValueError msg))
   \<and> \<not> (\<exists>msg. EchoRatio_extract \<lparr>x_data = [0], y_data = [0], z_data = [0]\<rparr> [7] (Some \<lparr>x_data = [0], y_data = [0], z_data = [0]\<rparr>) (Some 0)
            \<lparr>vol_TYPE = ''infinite cylinder'', radius = 1\<rparr> = Inl (ValueError msg))"
  using echo_ratio_invalid_argument [of "\<lparr>x_data = [0], y_data = [0], z_data = [0]\<rparr>" "[7]" "Some \<lparr>x_data = [0], y_data = [0], z_data = [0]\<rparr>" "Some 0"
          "\<lparr>vol_TYPE = ''sphere'', radius = 1\<rparr>"]
        echo_ratio_invalid_argument [of "\<lparr>x_data = [0], y_data = [0], z_data = [0]\<rparr>" "[7]" "Some \<lparr>x_data = [0], y_data = [0], z_data = [0]\<rparr>" "Some 0"
          "\<lparr>vol_TYPE = ''infinite cylinder'', radius = 1\<rparr>"]
  by simp

text \<open>
  Claim C7, as the code has it. On an empty neighborhood the extractor has no policy of its
  own: with a cylinder volume and a target position that can be read, it does not raise and
  returns no finite value, but the NaN of the floating division \<open>0 / 0\<close>.
\<close>

theorem echo_ratio_empty_nan:
  assumes "vol_TYPE vol = ''infinite cylinder''"
    and "get_target_position tpc ti = Inr xyz0"
  shows "EchoRatio_extract pc [] (Some tpc) (Some ti) vol = Inr NaN"
  using assms
  by (simp add: EchoRatio_extract_def get_neighborhood_positions_def np_true_divide_def)

theorem echo_ratio_empty_nan_witness:
  "EchoRatio_extract \<lparr>x_data = [1, 2], y_data = [3, 4], z_data = [5, 6]\<rparr> []
      (Some \<lparr>x_data = [1, 2], y_data = [3, 4], z_data = [5, 6]\<rparr>) (Some 1)
      \<lparr>vol_TYPE = ''infinite cylinder'', radius = 2\<rparr> = Inr NaN"
  using echo_ratio_empty_nan [of "\<lparr>vol_TYPE = ''infinite cylinder'', radius = 2\<rparr>"
      "\<lparr>x_data = [1, 2], y_data = [3, 4], z_data = [5, 6]\<rparr>" 1 "(2, 4, 6)"
      "\<lparr>x_data = [1, 2], y_data = [3, 4], z_data = [5, 6]\<rparr>"]
  by (simp add: get_target_position_def take_index_def)

text \<open>
  Claim C7 as stated fails: at this input the result is neither a failure nor a sentinel
  number, it is NaN.
\<close>

theorem echo_ratio_empty_counterexample:
  "EchoRatio_extract \<lparr>x_data = [0], y_data = [0], z_data = [0]\<rparr> [] (Some \<lparr>x_data = [0], y_data = [0], z_data = [0]\<rparr>) (Some 0) \<lparr>vol_TYPE = ''infinite cylinder'', radius = 1\<rparr> = Inr NaN"
  by (simp add: EchoRatio_extract_def get_neighborhood_positions_def get_target_position_def
      take_index_def np_true_divide_def)

section \<open>Properties of the percentile extractor\<close>

lemma take2_drop: "Suc i < length s \<Longrightarrow> take 2 (drop i s) = [s ! i, s ! Suc i]"
proof -
  assume a: "Suc i < length s"
  then have "drop i s = s ! i # drop (Suc i) s"
    by (simp add: Cons_nth_drop_Suc)
  moreover have "drop (Suc i) s = s ! Suc i # drop (Suc (Suc i)) s"
    using a by (simp add: Cons_nth_drop_Suc)
  ultimately show ?thesis by (simp add: numeral_2_eq_2)
qed

lemma take1_drop: "i < length s \<Longrightarrow> take 1 (drop i s) = [s ! i]"
  by (simp add: take_Suc_conv_app_nth)

lemma compute_qth_percentile_linear:
  assumes ne: "s \<noteq> []" and p0: "0 \<le> p" and p1: "p \<le> 100"
  shows "compute_qth_percentile s p =
           Inr (let h = p / 100 * (real (length s) - 1); lo = nat \<lfloor>h\<rfloor>; hi = nat \<lceil>h\<rceil>
                in s ! lo + (h - real lo) * (s ! hi - s ! lo))"
proof -
  define idx where "idx = p / 100 * (real (length s) - 1)"
  define i where "i = nat \<lfloor>idx\<rfloor>"
  have n1: "1 \<le> length s" using ne by (cases s) simp_all
  have idx0: "0 \<le> idx" using p0 n1 by (simp add: idx_def)
  have "p / 100 \<le> 1" using p1 by simp
  then have "p / 100 * (real (length s) - 1) \<le> 1 * (real (length s) - 1)"
    using n1 by (intro mult_right_mono) simp_all
  then have idxn: "idx \<le> real (length s) - 1" by (simp add: idx_def)
  have ri: "real i = of_int \<lfloor>idx\<rfloor>" using idx0 by (simp add: i_def)
  have ile: "real i \<le> idx" unfolding ri by simp
  have unf: "compute_qth_percentile s p =
     (if real i = idx
      then Inr (sum_list (map2 (*) (take 1 (drop i s)) [1]) / 1)
      else Inr (sum_list (map2 (*) (take 2 (drop i s)) [real (i + 1) - idx, idx - real i])
                / sum_list [real (i + 1) - idx, idx - real i]))"
    using p0 p1 unfolding compute_qth_percentile_def Let_def idx_def i_def by simp
  have goal: "(let h = p / 100 * (real (length s) - 1); lo = nat \<lfloor>h\<rfloor>; hi = nat \<lceil>h\<rceil>
                in s ! lo + (h - real lo) * (s ! hi - s ! lo))
              = s ! i + (idx - real i) * (s ! nat \<lceil>idx\<rceil> - s ! i)"
    unfolding Let_def idx_def i_def by simp
  show ?thesis
  proof (cases "real i = idx")
    case True
    then have "real i \<le> real (length s) - 1" using idxn by simp
    then have iltn: "i < length s" using n1 by linarith
    have t1: "take 1 (drop i s) = [s ! i]"
      using iltn by (rule take1_drop)
    show ?thesis
      unfolding unf goal t1 using True by simp
  next
    case False
    then have ilt: "real i < idx" using ile by simp
    have "real i < real (length s) - 1" using ilt idxn by simp
    then have si: "Suc i < length s" by linarith
    have "\<lceil>idx\<rceil> = \<lfloor>idx\<rfloor> + 1"
      using False ri by (simp add: ceiling_altdef)
    then have ceil: "nat \<lceil>idx\<rceil> = Suc i" using idx0 by (simp add: i_def nat_add_distrib)
    have t2: "take 2 (drop i s) = [s ! i, s ! Suc i]"
      using si by (rule take2_drop)
    show ?thesis
      unfolding unf goal ceil t2 using False by (simp add: algebra_simps)
  qed
qed



lemma scoreatpercentile_linear:
  assumes "z \<noteq> []" and "0 \<le> p" and "p \<le> 100"
  shows "scoreatpercentile z p = Inr (Fin (percentile_linear z p))"
proof -
  have "sort z \<noteq> []" using assms(1) by (metis length_sort length_0_conv)
  from compute_qth_percentile_linear [OF this assms(2,3)] assms(1)
  show ?thesis by (simp add: scoreatpercentile_def percentile_linear_def Let_def)
qed

lemma percentile_linear_single: "percentile_linear [v] p = v"
  by (simp add: percentile_linear_def)

text \<open>A run of the extractor on the heights \<open>4, 1, 2\<close>.\<close>

lemma percentile_example:
  "Percentile_extract \<lparr>x_data = [0, 0, 0], y_data = [0, 0, 0], z_data = [4, 1, 2]\<rparr> [0, 1, 2] =
     Inr (map Fin [12/10, 14/10, 16/10, 18/10, 2, 24/10, 28/10, 32/10, 36/10, 4])"
  by (simp add: Percentile_extract_def percentiles_def scoreatpercentile_def compute_qth_percentile_def
      take_index_def Let_def)

text \<open>
  Claim C8. For a non-empty neighborhood whose indices are all in range, the extractor returns
  ten values: the 10th, 20th, ..., 100th percentile of the heights of the neighborhood, in
  this order, each the linear interpolation between the two closest ranks of the sorted
  heights. For a neighborhood of one point the ten values are that point's height.
\<close>

theorem percentile_values:
  assumes "take_indices (z_data sourcepc) neighborhood = Inr z"
    and "neighborhood \<noteq> []"
  shows "Percentile_extract sourcepc neighborhood =
           Inr (map (\<lambda>p. Fin (percentile_linear z p)) [10, 20, 30, 40, 50, 60, 70, 80, 90, 100])
         \<and> (length neighborhood = 1 \<longrightarrow>
              Percentile_extract sourcepc neighborhood = Inr (replicate 10 (Fin (z ! 0))))"
proof -
  have "length z = length neighborhood"
    using assms(1) by (rule take_indices_length)
  then have ne: "z \<noteq> []" using assms(2) by auto
  have first: "Percentile_extract sourcepc neighborhood =
           Inr (map (\<lambda>p. Fin (percentile_linear z p)) [10, 20, 30, 40, 50, 60, 70, 80, 90, 100])"
    using assms(1) by (simp add: Percentile_extract_def percentiles_def scoreatpercentile_linear [OF ne])
  have second: "Percentile_extract sourcepc neighborhood = Inr (replicate 10 (Fin (z ! 0)))"
    if "length neighborhood = 1"
  proof -
    from that \<open>length z = length neighborhood\<close> obtain v where "z = [v]"
      by (cases z) auto
    then show ?thesis unfolding first
      by (simp add: percentile_linear_single numeral_eq_Suc)
  qed
  show ?thesis using first second by blast
qed

theorem percentile_values_witness:
  "Percentile_extract \<lparr>x_data = [0, 0, 0], y_data = [0, 0, 0], z_data = [4, 1, 2]\<rparr> [1] =
           Inr (map (\<lambda>p. Fin (percentile_linear [1] p)) [10, 20, 30, 40, 50, 60, 70, 80, 90, 100])
   \<and> Percentile_extract \<lparr>x_data = [0, 0, 0], y_data = [0, 0, 0], z_data = [4, 1, 2]\<rparr> [1]
       = Inr (replicate 10 (Fin 1))"
  using percentile_values [of "\<lparr>x_data = [0, 0, 0], y_data = [0, 0, 0], z_data = [4, 1, 2]\<rparr>" "[1]" "[1]"]
  by (simp add: take_index_def percentile_linear_single numeral_eq_Suc)

text \<open>
  Claim C9, as the code has it. The extractor does not check the size of the neighborhood:
  on an empty neighborhood, for every point cloud, nothing is raised and the result is ten
  NaN values, the value \<open>scoreatpercentile\<close> gives for an empty array.
\<close>

theorem percentile_empty_nan:
  "Percentile_extract sourcepc [] = Inr (replicate 10 NaN)"
  by (simp add: Percentile_extract_def percentiles_def scoreatpercentile_def numeral_eq_Suc)

text \<open>Claim C9 as stated fails: at this input no error is raised.\<close>

theorem percentile_empty_counterexample:
  "Percentile_extract \<lparr>x_data = [0], y_data = [0], z_data = [0]\<rparr> [] =
     Inr [NaN, NaN, NaN, NaN, NaN, NaN, NaN, NaN, NaN, NaN]"
  by (simp add: Percentile_extract_def percentiles_def scoreatpercentile_def)

section \<open>Properties of the eigen-structure extractor\<close>

subsection \<open>Packing and the masked covariance\<close>

lemma collect_Inr:
  "collect f xs = Inr ys \<Longrightarrow> length ys = length xs \<and> (\<forall>k < length xs. f (xs ! k) = Inr (ys ! k))"
proof (induction xs arbitrary: ys)
  case Nil
  then show ?case by simp
next
  case (Cons x xs)
  from Cons.prems obtain v vs where v: "f x = Inr v" and vs: "collect f xs = Inr vs"
    and ys: "ys = v # vs"
    by (auto split: sum.splits)
  from Cons.IH [OF vs] have len: "length vs = length xs"
    and nth: "\<forall>k < length xs. f (xs ! k) = Inr (vs ! k)" by simp_all
  show ?case
  proof (intro conjI allI impI)
    show "length ys = length (x # xs)" using len ys by simp
  next
    fix k assume "k < length (x # xs)"
    then show "f ((x # xs) ! k) = Inr (ys ! k)"
      using v nth ys by (cases k) simp_all
  qed
qed

lemma get_point_length:
  "get_point pc nb = Inr (xs, ys, zs) \<Longrightarrow>
     length xs = length nb \<and> length ys = length nb \<and> length zs = length nb"
  by (auto simp: get_point_def split: sum.splits dest!: take_indices_length)

lemma get_xyz_nth:
  assumes "get_xyz pc nbs = Inr xyz" and "k < length nbs"
    and "get_point pc (nbs ! k) = Inr (xs, ys, zs)"
  shows "xyz ! k = (pad_row (max_length nbs) xs, pad_row (max_length nbs) ys,
                    pad_row (max_length nbs) zs)"
proof -
  from collect_Inr [OF assms(1) [unfolded get_xyz_def]] assms(2)
  have "(case get_point pc (nbs ! k) of Inl e \<Rightarrow> Inl e
         | Inr (xs, ys, zs) \<Rightarrow> Inr (pad_row (max_length nbs) xs, pad_row (max_length nbs) ys,
                             pad_row (max_length nbs) zs)) = Inr (xyz ! k)"
    by blast
  then show ?thesis using assms(3) by simp
qed

lemma get_xyz_get_point:
  assumes "get_xyz pc nbs = Inr xyz" and "k < length nbs"
  shows "\<exists>xs ys zs. get_point pc (nbs ! k) = Inr (xs, ys, zs)"
proof -
  from collect_Inr [OF assms(1) [unfolded get_xyz_def]] assms(2)
  have "(case get_point pc (nbs ! k) of Inl e \<Rightarrow> Inl e
         | Inr (xs, ys, zs) \<Rightarrow> Inr (pad_row (max_length nbs) xs, pad_row (max_length nbs) ys,
                             pad_row (max_length nbs) zs)) = Inr (xyz ! k)"
    by blast
  then show ?thesis by (cases "get_point pc (nbs ! k)") auto
qed

lemma get_xyz_length: "get_xyz pc nbs = Inr xyz \<Longrightarrow> length xyz = length nbs"
  using collect_Inr [of _ nbs xyz] by (simp add: get_xyz_def)

lemma n_valid_pad_row: "n_valid (pad_row w vs) = int (length vs)"
  by (simp add: n_valid_def pad_row_def filter_map o_def)

lemma masked_sum_pad_row: "masked_sum (pad_row w vs) = sum_list vs"
proof -
  have "sum_list (map (\<lambda>(v, msk). if msk then 0 else v) (map (\<lambda>v. (v, False)) vs)) = sum_list vs"
    by (simp add: o_def)
  moreover have "sum_list (map (\<lambda>(v, msk). if msk then 0 else v) (replicate n (0::real, True))) = 0" for n
    by (induction n) simp_all
  ultimately show ?thesis by (simp add: masked_sum_def pad_row_def)
qed

lemma centered_pad_row:
  "centered (pad_row w vs) = map (\<lambda>v. v - mean vs) vs @ replicate (w - length vs) 0"
proof -
  have "centered (pad_row w vs) =
          map (\<lambda>(v, msk). if msk then v else v - mean vs) (pad_row w vs)"
    unfolding centered_def masked_sum_pad_row n_valid_pad_row mean_def by auto
  then show ?thesis by (simp add: pad_row_def o_def)
qed

lemma einsum_entry_append_zeros:
  "length a = length b \<Longrightarrow>
     einsum_entry (a @ replicate n 0) (b @ replicate n 0) = einsum_entry a b"
proof -
  assume "length a = length b"
  moreover have "sum_list (map2 (*) (replicate n (0::real)) (replicate n 0)) = 0"
    by (induction n) simp_all
  ultimately show ?thesis by (simp add: einsum_entry_def)
qed

lemma einsum_entry_centered:
  assumes "length us = length vs"
  shows "einsum_entry (map (\<lambda>v. v - mean us) us) (map (\<lambda>v. v - mean vs) vs) = cross_moment us vs"
proof -
  have "sum_list (map2 (*) (map f us) (map g vs)) = (\<Sum>k < length us. f (us ! k) * g (vs ! k))"
    for f g :: "real \<Rightarrow> real"
    using assms
  proof (induction us vs rule: list_induct2)
    case Nil
    then show ?case by simp
  next
    case (Cons x xs y ys)
    then show ?case by (simp add: sum.lessThan_Suc_shift del: sum.lessThan_Suc)
  qed
  then show ?thesis by (simp add: einsum_entry_def cross_moment_def)
qed

lemma einsum_entry_pad_row:
  assumes "length us = length vs"
  shows "einsum_entry (centered (pad_row w us)) (centered (pad_row w vs)) = cross_moment us vs"
  unfolding centered_pad_row using assms
  by (simp add: einsum_entry_append_zeros einsum_entry_centered)

lemma get_cov_block_pad_row:
  assumes "length xs = length ys" and "length ys = length zs"
  shows "get_cov_block (pad_row w xs, pad_row w ys, pad_row w zs) = covariance (xs, ys, zs)"
  using assms
  by (simp add: get_cov_block_def covariance_def Let_def einsum_entry_pad_row n_valid_pad_row)

lemma get_cov_nth:
  assumes "get_xyz sourcepc nbs = Inr xyz" and "k < length nbs"
    and "get_point sourcepc (nbs ! k) = Inr (xs, ys, zs)"
  shows "get_cov xyz ! k = covariance (xs, ys, zs)"
proof -
  note len = get_point_length [OF assms(3)]
  note blk = get_xyz_nth [OF assms]
  have k: "k < length xyz" using assms(1,2) by (simp add: get_xyz_length)
  show ?thesis
    using k blk len by (simp add: get_cov_def get_cov_block_pad_row)
qed

text \<open>The covariance of the two points \<open>(0, 0, 0)\<close> and \<open>(1, 0, 2)\<close>.\<close>

lemma covariance_example:
  "covariance ([0, 1], [0, 0], [0, 2]) =
     ((Fin (1/2), Fin 0, Fin 1), (Fin 0, Fin 0, Fin 0), (Fin 1, Fin 0, Fin 2))"
  by (simp add: covariance_def cross_moment_def mean_def np_true_divide_def lessThan_Suc numeral_2_eq_2)

text \<open>
  Claim C4. In a packed batch, for every neighborhood: the count \<open>n\<close> of each row is the
  number of the neighborhood's own points, not the width of the array; the mean of each axis
  is the masked sum divided by \<open>n\<close>, which is the mean of the neighborhood's own
  coordinates; and the matrix that \<open>_get_cov\<close> computes is the covariance of the
  neighborhood's own points, the products of the centered coordinates divided by \<open>n - 1\<close>.
  The right-hand sides mention neither the width of the array nor the other neighborhoods
  of the batch: the padding changes nothing.
\<close>

theorem masked_covariance:
  assumes "get_xyz sourcepc nbs = Inr xyz" and "k < length nbs"
    and "get_point sourcepc (nbs ! k) = Inr (xs, ys, zs)"
  shows "(case xyz ! k of (rx, ry, rz) \<Rightarrow>
            n_valid rx = int (length (nbs ! k)) \<and> n_valid ry = int (length (nbs ! k)) \<and>
            n_valid rz = int (length (nbs ! k)) \<and>
            masked_sum rx / real_of_int (n_valid rx) = mean xs \<and>
            masked_sum ry / real_of_int (n_valid ry) = mean ys \<and>
            masked_sum rz / real_of_int (n_valid rz) = mean zs)
         \<and> get_cov xyz ! k = covariance (xs, ys, zs)"
proof -
  note len = get_point_length [OF assms(3)]
  note blk = get_xyz_nth [OF assms]
  have "get_cov xyz ! k = covariance (xs, ys, zs)"
    using assms by (rule get_cov_nth)
  then show ?thesis
    using len by (simp add: blk n_valid_pad_row masked_sum_pad_row mean_def)
qed

theorem masked_covariance_witness:
  "get_cov [([(0, False), (1, False), (2, False)], [(0, False), (0, False), (3, False)],
             [(0, False), (2, False), (2, False)]),
            ([(0, False), (1, False), (0, True)], [(0, False), (0, False), (0, True)],
             [(0, False), (2, False), (0, True)])] ! 1
     = covariance ([0, 1], [0, 0], [0, 2])"
  using masked_covariance [of "\<lparr>x_data = [0, 1, 2], y_data = [0, 0, 3], z_data = [0, 2, 2]\<rparr>"
      "[[0, 1, 2], [0, 1]]"
      "[([(0, False), (1, False), (2, False)], [(0, False), (0, False), (3, False)],
         [(0, False), (2, False), (2, False)]),
        ([(0, False), (1, False), (0, True)], [(0, False), (0, False), (0, True)],
         [(0, False), (2, False), (0, True)])]"
      1 "[0, 1]" "[0, 0]" "[0, 2]"]
  by (simp add: get_xyz_def max_length_def get_point_def take_index_def pad_row_def)

subsection \<open>The outputs\<close>

lemma length3_cases: "length l = 3 \<Longrightarrow> \<exists>x y z. l = [x, y, z]"
  by (auto simp: length_Suc_conv numeral_3_eq_3)

lemma sort3_cases:
  obtains x y z where "sort [a, b, c :: real] = [x, y, z]" and "x \<le> y" and "y \<le> z"
proof -
  have "length (sort [a, b, c]) = 3" unfolding length_sort by simp
  then obtain x y z where e: "sort [a, b, c] = [x, y, z]"
    using length3_cases by blast
  have "sorted (sort [a, b, c])" by (rule sorted_sort)
  then have "x \<le> y \<and> y \<le> z" unfolding e by simp
  then show ?thesis using e that by blast
qed

lemma sort_descending_order:
  "sort_descending v ! 1 \<le> sort_descending v ! 0 \<and> sort_descending v ! 2 \<le> sort_descending v ! 1"
proof -
  obtain a b c where v: "v = (a, b, c)" by (cases v) auto
  obtain x y z where "sort [a, b, c] = [x, y, z]" and "x \<le> y" and "y \<le> z"
    by (rule sort3_cases)
  then show ?thesis unfolding v sort_descending.simps by (simp add: numeral_2_eq_2)
qed

lemma extract_Inr:
  assumes "EigenValueVectorize_extract eig sourcepc neighborhood = Inr r"
  obtains nbs xyz eigs where "as_batch neighborhood = Inr nbs"
    and "get_xyz sourcepc nbs = Inr xyz"
    and "linalg_eig eig (get_cov xyz) = Inr eigs"
    and "r = \<lparr>eigenv_1 = map (\<lambda>p. sort_descending (fst p) ! 0) eigs,
              eigenv_2 = map (\<lambda>p. sort_descending (fst p) ! 1) eigs,
              eigenv_3 = map (\<lambda>p. sort_descending (fst p) ! 2) eigs,
              normal_vector_1 = map (\<lambda>p. fst (last_column (snd p))) eigs,
              normal_vector_2 = map (\<lambda>p. fst (snd (last_column (snd p)))) eigs,
              normal_vector_3 = map (\<lambda>p. snd (snd (last_column (snd p)))) eigs,
              slope = map (\<lambda>p. dot_zaxis (last_column (snd p))) eigs\<rparr>"
  using assms
  by (auto simp: EigenValueVectorize_extract_def Let_def o_def split: sum.splits)

text \<open>The three eigenvalues of every neighborhood are returned in descending order.\<close>

lemma eigenvalues_descending:
  assumes "EigenValueVectorize_extract eig sourcepc neighborhood = Inr r"
    and "k < length (eigenv_1 r)"
  shows "eigenv_2 r ! k \<le> eigenv_1 r ! k \<and> eigenv_3 r ! k \<le> eigenv_2 r ! k"
proof -
  from assms(1) obtain nbs xyz eigs where
    r: "r = \<lparr>eigenv_1 = map (\<lambda>p. sort_descending (fst p) ! 0) eigs,
              eigenv_2 = map (\<lambda>p. sort_descending (fst p) ! 1) eigs,
              eigenv_3 = map (\<lambda>p. sort_descending (fst p) ! 2) eigs,
              normal_vector_1 = map (\<lambda>p. fst (last_column (snd p))) eigs,
              normal_vector_2 = map (\<lambda>p. fst (snd (last_column (snd p)))) eigs,
              normal_vector_3 = map (\<lambda>p. snd (snd (last_column (snd p)))) eigs,
              slope = map (\<lambda>p. dot_zaxis (last_column (snd p))) eigs\<rparr>"
    by (rule extract_Inr)
  have k: "k < length eigs" using assms(2) by (simp add: r)
  show ?thesis using k sort_descending_order [of "fst (eigs ! k)"] by (simp add: r)
qed

text \<open>On a diagonal matrix \<open>eig_diag\<close> is a correct solver: its values are the
  eigenvalues and its columns are eigenvectors for them, in the same order.\<close>

lemma eig_diag_eigenvectors:
  assumes "A = ((a, 0, 0), (0, b, 0), (0, 0, c))"
  shows "fst (eig_diag A) = (a, b, c)"
    and "is_eigenvector A a (1, 0, 0)"
    and "is_eigenvector A b (0, 1, 0)"
    and "is_eigenvector A c (last_column (snd (eig_diag A)))"
  by (simp_all add: assms is_eigenvector_def)

text \<open>A run of the extractor on one neighborhood of two points on a vertical line,
  \<open>(0, 0, 0)\<close> and \<open>(0, 0, 2)\<close>.\<close>

lemma extract_line:
  "EigenValueVectorize_extract eig_diag \<lparr>x_data = [0, 0], y_data = [0, 0], z_data = [0, 2]\<rparr>
      (Nested [[0, 1]])
   = Inr \<lparr>eigenv_1 = [2], eigenv_2 = [0], eigenv_3 = [0], normal_vector_1 = [0],
          normal_vector_2 = [0], normal_vector_3 = [1], slope = [1]\<rparr>"
  by (simp add: EigenValueVectorize_extract_def get_xyz_def max_length_def get_point_def
      take_index_def pad_row_def get_cov_def get_cov_block_def centered_def masked_sum_def
      n_valid_def einsum_entry_def np_true_divide_def linalg_eig_def Let_def)

text \<open>
  Claim C1, at that input. The covariance matrix of the two points is diagonal with the
  entries 0, 0 and 2. The extractor returns the eigenvalues 2, 0, 0, in descending order, and
  the normal \<open>(0, 0, 1)\<close>: the last column of the solver's matrix, which is an eigenvector
  for the largest eigenvalue 2 and not one for the smallest eigenvalue 0. The eigenvalues are
  sorted, the eigenvectors are not reordered with them.
\<close>

theorem normal_of_vertical_line:
  "EigenValueVectorize_extract eig_diag \<lparr>x_data = [0, 0], y_data = [0, 0], z_data = [0, 2]\<rparr>
      (Nested [[0, 1]])
     = Inr \<lparr>eigenv_1 = [2], eigenv_2 = [0], eigenv_3 = [0], normal_vector_1 = [0],
            normal_vector_2 = [0], normal_vector_3 = [1], slope = [1]\<rparr>
   \<and> finite_mat (covariance ([0, 0], [0, 0], [0, 2])) = Some ((0, 0, 0), (0, 0, 0), (0, 0, 2))
   \<and> is_eigenvector ((0, 0, 0), (0, 0, 0), (0, 0, 2)) 2 (0, 0, 1)
   \<and> \<not> is_eigenvector ((0, 0, 0), (0, 0, 0), (0, 0, 2)) 0 (0, 0, 1)"
proof -
  have "finite_mat (covariance ([0, 0], [0, 0], [0, 2])) = Some ((0, 0, 0), (0, 0, 0), (0, 0, 2))"
    by (simp add: covariance_def cross_moment_def mean_def np_true_divide_def lessThan_Suc
        numeral_2_eq_2)
  then show ?thesis
    by (simp add: extract_line is_eigenvector_def)
qed

text \<open>
  Claim C10. Whenever the extractor returns, the slope array is the array of the third
  components of the normals.
\<close>

theorem slope_is_normal_3:
  "EigenValueVectorize_extract eig sourcepc neighborhood = Inr r \<Longrightarrow> slope r = normal_vector_3 r"
proof -
  assume a: "EigenValueVectorize_extract eig sourcepc neighborhood = Inr r"
  have dz: "dot_zaxis v = snd (snd v)" for v
    by (cases v) simp
  from a show ?thesis
    by (auto simp: EigenValueVectorize_extract_def Let_def dz split: sum.splits)
qed

theorem slope_is_normal_3_witness:
  "slope \<lparr>eigenv_1 = [2], eigenv_2 = [0], eigenv_3 = [0], normal_vector_1 = [0],
          normal_vector_2 = [0], normal_vector_3 = [1::real], slope = [1]\<rparr>
   = normal_vector_3 \<lparr>eigenv_1 = [2], eigenv_2 = [0], eigenv_3 = [0], normal_vector_1 = [0],
          normal_vector_2 = [0], normal_vector_3 = [1], slope = [1::real]\<rparr>"
  using slope_is_normal_3 [OF extract_line] .

subsection \<open>Neighborhoods with too few points\<close>

text \<open>
  Claim C3, at the input of the test \<open>test_eigenvalues_of_too_few_points_results_in_0\<close>:
  one neighborhood holding the single point \<open>(5, 5, 5)\<close>. Every entry of the covariance
  is \<open>0 / 0\<close>, and the solver is not reached: \<open>np.linalg.eig\<close> raises \<open>LinAlgError\<close>.
\<close>

theorem too_few_points_raises:
  "EigenValueVectorize_extract eig \<lparr>x_data = [5], y_data = [5], z_data = [5]\<rparr> (Nested [[0]])
     = Inl LinAlgError"
  by (simp add: EigenValueVectorize_extract_def get_xyz_def max_length_def get_point_def
      take_index_def pad_row_def get_cov_def get_cov_block_def centered_def masked_sum_def
      n_valid_def einsum_entry_def np_true_divide_def linalg_eig_def Let_def)

text \<open>A neighborhood of one point fails the whole batch, and an empty neighborhood gets
  the eigenvalues 0 but the solver's unit vector as its normal.\<close>

lemma one_point_fails_batch:
  "EigenValueVectorize_extract eig \<lparr>x_data = [0, 0], y_data = [0, 0], z_data = [0, 2]\<rparr>
      (Nested [[0, 1], [1]]) = Inl LinAlgError"
  by (simp add: EigenValueVectorize_extract_def get_xyz_def max_length_def get_point_def
      take_index_def pad_row_def get_cov_def get_cov_block_def centered_def masked_sum_def
      n_valid_def einsum_entry_def np_true_divide_def linalg_eig_def Let_def)

lemma empty_neighborhood_normal:
  "EigenValueVectorize_extract eig_diag pc (Nested [[]])
     = Inr \<lparr>eigenv_1 = [0], eigenv_2 = [0], eigenv_3 = [0], normal_vector_1 = [0],
            normal_vector_2 = [0], normal_vector_3 = [1], slope = [1]\<rparr>"
  by (simp add: EigenValueVectorize_extract_def get_xyz_def max_length_def get_point_def
      take_index_def pad_row_def get_cov_def get_cov_block_def centered_def masked_sum_def
      n_valid_def einsum_entry_def np_true_divide_def linalg_eig_def Let_def)

subsection \<open>The vectorized and the serial extractor\<close>

lemma sort_negated: "map uminus (sort (map uminus xs)) = rev (sort (xs :: real list))"
proof -
  have s: "sorted (map uminus (rev (sort xs)))"
    by (simp add: sorted_map sorted_wrt_rev)
  have m: "mset (map uminus (rev (sort xs))) = mset (map uminus xs)"
    by simp
  have "sort (map uminus xs) = map uminus (rev (sort xs))"
    using m s by (rule properties_for_sort)
  then show ?thesis by (simp add: o_def)
qed

lemma finite_mat_covariance:
  assumes "length xs = length ys" and "length ys = length zs" and "1 < length xs"
  shows "finite_mat (covariance (xs, ys, zs)) = Some (np_cov (xs, ys, zs))"
proof -
  have d: "real (length xs) - 1 \<noteq> 0" using assms(3) by simp
  have e: "einsum_entry (map (\<lambda>v. v - sum_list us / real (length us)) us)
             (map (\<lambda>v. v - sum_list vs / real (length vs)) vs) = cross_moment us vs"
    if "length us = length vs" for us vs
    using einsum_entry_centered [OF that] by (simp add: mean_def)
  have xy: "length xs = length ys" and xz: "length xs = length zs"
    and yx: "length ys = length xs" and yz: "length ys = length zs"
    and zx: "length zs = length xs" and zy: "length zs = length ys"
    using assms(1,2) by simp_all
  have cov: "covariance (xs, ys, zs) =
     ((Fin (cross_moment xs xs / (real (length xs) - 1)),
       Fin (cross_moment xs ys / (real (length xs) - 1)),
       Fin (cross_moment xs zs / (real (length xs) - 1))),
      (Fin (cross_moment ys xs / (real (length xs) - 1)),
       Fin (cross_moment ys ys / (real (length xs) - 1)),
       Fin (cross_moment ys zs / (real (length xs) - 1))),
      (Fin (cross_moment zs xs / (real (length xs) - 1)),
       Fin (cross_moment zs ys / (real (length xs) - 1)),
       Fin (cross_moment zs zs / (real (length xs) - 1))))"
    using d unfolding covariance_def Let_def np_true_divide_def by simp
  have np: "np_cov (xs, ys, zs) =
     ((cross_moment xs xs * (1 / (real (length xs) - 1)),
       cross_moment xs ys * (1 / (real (length xs) - 1)),
       cross_moment xs zs * (1 / (real (length xs) - 1))),
      (cross_moment ys xs * (1 / (real (length xs) - 1)),
       cross_moment ys ys * (1 / (real (length xs) - 1)),
       cross_moment ys zs * (1 / (real (length xs) - 1))),
      (cross_moment zs xs * (1 / (real (length xs) - 1)),
       cross_moment zs ys * (1 / (real (length xs) - 1)),
       cross_moment zs zs * (1 / (real (length xs) - 1))))"
    unfolding np_cov_def Let_def prod.case
      e [OF refl] e [OF xy] e [OF xz] e [OF yx] e [OF yz] e [OF zx] e [OF zy]
    by (rule refl)
  show ?thesis unfolding cov np by simp
qed

lemma get_cov_covariance:
  assumes "get_xyz pc nbs = Inr xyz"
  obtains cs where "length cs = length nbs"
    and "\<forall>k < length nbs. get_point pc (nbs ! k) = Inr (cs ! k)"
    and "get_cov xyz = map covariance cs"
proof -
  define cs where "cs = map (\<lambda>nb. projr (get_point pc nb)) nbs"
  have len: "length cs = length nbs" by (simp add: cs_def)
  have pt: "get_point pc (nbs ! k) = Inr (cs ! k)" if "k < length nbs" for k
  proof -
    from get_xyz_get_point [OF assms that]
    show ?thesis using that by (auto simp: cs_def)
  qed
  have "get_cov xyz ! k = map covariance cs ! k" if "k < length nbs" for k
  proof -
    obtain xs ys zs where c: "cs ! k = (xs, ys, zs)" by (cases "cs ! k") auto
    from get_cov_nth [OF assms that pt [OF that, unfolded c]]
    show ?thesis using that len c by simp
  qed
  moreover have "length (get_cov xyz) = length nbs"
    using get_xyz_length [OF assms] by (simp add: get_cov_def)
  ultimately have "get_cov xyz = map covariance cs"
    using len by (simp add: list_eq_iff_nth_eq)
  then show ?thesis using that len pt by blast
qed

lemma those_finite_mat:
  "\<forall>c \<in> set cs. finite_mat (covariance c) = Some (np_cov c) \<Longrightarrow>
     those (map finite_mat (map covariance cs)) = Some (map np_cov cs)"
  by (induction cs) simp_all

lemma serial_extract_value:
  assumes "get_point pc nb = Inr c" and "3 < length nb"
  shows "EigenValueSerial_extract eig pc nb =
           Inr [sort_descending (fst (eig (np_cov c))) ! 0,
                sort_descending (fst (eig (np_cov c))) ! 1,
                sort_descending (fst (eig (np_cov c))) ! 2]"
proof -
  obtain xs ys zs where c: "c = (xs, ys, zs)" by (cases c) auto
  have len: "3 < length xs" using get_point_length [OF assms(1) [unfolded c]] assms(2) by simp
  obtain a b d where e: "fst (eig (np_cov (xs, ys, zs))) = (a, b, d)"
    by (cases "fst (eig (np_cov (xs, ys, zs)))") auto
  have "structure_tensor eig (xs, ys, zs) = Some (sort_descending (a, b, d))"
    using len e sort_negated [of "[a, b, d]"]
    by (simp add: structure_tensor_def)
  then show ?thesis using assms(1) e by (simp add: EigenValueSerial_extract_def c)
qed

text \<open>
  Claim C2, as the code has it. For a batch whose indices are all in range and in which
  every neighborhood has more than three points, the vectorized extractor returns, and its
  first three outputs are, neighborhood by neighborhood, what the serial extractor returns
  for that neighborhood alone (with the same solver).
\<close>

theorem vectorized_equals_serial:
  assumes "get_xyz sourcepc (nb # nbs) = Inr xyz"
    and "\<forall>n \<in> set (nb # nbs). 3 < length n"
  shows "\<exists>r. EigenValueVectorize_extract eig sourcepc (Nested (nb # nbs)) = Inr r \<and>
             length (eigenv_1 r) = length (nb # nbs) \<and>
             (\<forall>k < length (nb # nbs).
                EigenValueSerial_extract eig sourcepc ((nb # nbs) ! k) =
                  Inr [eigenv_1 r ! k, eigenv_2 r ! k, eigenv_3 r ! k])"
proof -
  from assms(1) obtain cs where len: "length cs = length (nb # nbs)"
    and pt: "\<forall>k < length (nb # nbs). get_point sourcepc ((nb # nbs) ! k) = Inr (cs ! k)"
    and cov: "get_cov xyz = map covariance cs"
    by (rule get_cov_covariance)
  have fin: "finite_mat (covariance c) = Some (np_cov c)" if "c \<in> set cs" for c
  proof -
    from that obtain k where k: "k < length cs" and c: "c = cs ! k"
      by (auto simp: in_set_conv_nth)
    obtain xs ys zs where t: "c = (xs, ys, zs)" by (cases c) auto
    have gp: "get_point sourcepc ((nb # nbs) ! k) = Inr (xs, ys, zs)"
      using pt k len c t by simp
    have "3 < length ((nb # nbs) ! k)"
      using assms(2) k len by (metis nth_mem)
    then have "1 < length xs" "length xs = length ys" "length ys = length zs"
      using get_point_length [OF gp] by simp_all
    then show ?thesis unfolding t by (simp add: finite_mat_covariance)
  qed
  have eigs: "linalg_eig eig (get_cov xyz) = Inr (map eig (map np_cov cs))"
    using those_finite_mat [of cs] fin by (simp add: linalg_eig_def cov)
  define r where "r = \<lparr>eigenv_1 = map (\<lambda>c. sort_descending (fst (eig (np_cov c))) ! 0) cs,
              eigenv_2 = map (\<lambda>c. sort_descending (fst (eig (np_cov c))) ! 1) cs,
              eigenv_3 = map (\<lambda>c. sort_descending (fst (eig (np_cov c))) ! 2) cs,
              normal_vector_1 = map (\<lambda>c. fst (last_column (snd (eig (np_cov c))))) cs,
              normal_vector_2 = map (\<lambda>c. fst (snd (last_column (snd (eig (np_cov c)))))) cs,
              normal_vector_3 = map (\<lambda>c. snd (snd (last_column (snd (eig (np_cov c)))))) cs,
              slope = map (\<lambda>c. dot_zaxis (last_column (snd (eig (np_cov c))))) cs\<rparr>"
  have ex: "EigenValueVectorize_extract eig sourcepc (Nested (nb # nbs)) = Inr r"
    using assms(1) eigs by (simp add: EigenValueVectorize_extract_def Let_def o_def r_def)
  have ser: "EigenValueSerial_extract eig sourcepc ((nb # nbs) ! k) =
                  Inr [eigenv_1 r ! k, eigenv_2 r ! k, eigenv_3 r ! k]"
    if k: "k < length (nb # nbs)" for k
  proof -
    have "3 < length ((nb # nbs) ! k)" using assms(2) k by (metis nth_mem)
    from serial_extract_value [OF pt [rule_format, OF k] this]
    show ?thesis using k len by (simp add: r_def)
  qed
  have "length (eigenv_1 r) = length (nb # nbs)" using len by (simp add: r_def)
  then show ?thesis using ex ser by blast
qed

theorem vectorized_equals_serial_witness:
  "\<exists>r. EigenValueVectorize_extract eig_diag
            \<lparr>x_data = [0, 0], y_data = [0, 0], z_data = [0, 2]\<rparr> (Nested [[0, 1, 0, 1]]) = Inr r \<and>
       EigenValueSerial_extract eig_diag
            \<lparr>x_data = [0, 0], y_data = [0, 0], z_data = [0, 2]\<rparr> [0, 1, 0, 1] =
         Inr [eigenv_1 r ! 0, eigenv_2 r ! 0, eigenv_3 r ! 0]"
  using vectorized_equals_serial [of "\<lparr>x_data = [0, 0], y_data = [0, 0], z_data = [0, 2]\<rparr>"
      "[0, 1, 0, 1]" "[]"
      "[([(0, False), (0, False), (0, False), (0, False)],
         [(0, False), (0, False), (0, False), (0, False)],
         [(0, False), (2, False), (0, False), (2, False)])]" eig_diag]
  by (simp add: get_xyz_def max_length_def get_point_def take_index_def pad_row_def) blast

text \<open>
  Claim C2 as stated fails: on a neighborhood of three points the serial extractor gives
  up and returns zeros, the vectorized one returns the eigenvalues.
\<close>

theorem serial_differs_counterexample:
  "EigenValueVectorize_extract eig_diag \<lparr>x_data = [0, 0, 0], y_data = [0, 0, 0], z_data = [0, 2, 4]\<rparr>
      (Nested [[0, 1, 2]])
     = Inr \<lparr>eigenv_1 = [4], eigenv_2 = [0], eigenv_3 = [0], normal_vector_1 = [0],
            normal_vector_2 = [0], normal_vector_3 = [1], slope = [1]\<rparr>
   \<and> EigenValueSerial_extract eig_diag
        \<lparr>x_data = [0, 0, 0], y_data = [0, 0, 0], z_data = [0, 2, 4]\<rparr> [0, 1, 2] = Inr [0, 0, 0]"
  by (simp add: EigenValueVectorize_extract_def get_xyz_def max_length_def get_point_def
      take_index_def pad_row_def get_cov_def get_cov_block_def centered_def masked_sum_def
      n_valid_def einsum_entry_def np_true_divide_def linalg_eig_def Let_def
      EigenValueSerial_extract_def structure_tensor_def)

end
